theory Spec2Isabelle
  imports Main "HOL-Library.AList"
begin

section \<open>The video grid state of the meeting application\<close>

text \<open>
  This theory embeds \<^verbatim>\<open>src/apps/meeting/src/providers/VideoGridProvider/state.tsx\<close>:
  the selection of the video tiles to render (\<^verbatim>\<open>calculateVideoSourcesToBeRendered\<close>),
  the downlink preferences computed from it (\<^verbatim>\<open>updateDownlinkPreferences\<close>) and the
  reducer that maintains the state.

  JavaScript numbers are modelled by \<open>int\<close>: the code only adds and subtracts small integers
  and compares them, which is exact far below \<open>2 ^ 53\<close>. Strings are \<open>string\<close>.
\<close>

subsection \<open>Types declared outside the file\<close>

text \<open>
  Modelled from the spec: the enum \<^verbatim>\<open>VideoGridMode\<close> is imported from \<^verbatim>\<open>../../types\<close>, which
  is not among the sources; the spec gives it as \<open>enum{GalleryView, FeaturedView}\<close>.
\<close>

datatype VideoGridMode = GalleryView | FeaturedView

text \<open>
  Modelled from the spec: \<^verbatim>\<open>TargetDisplaySize\<close> and \<^verbatim>\<open>VideoPreference\<close> belong to the
  conferencing SDK. The spec gives the target size as \<open>{High, Low}\<close> and a preference as
  an attendee id, a priority (1 is the highest) and a target size; the constructor below
  takes its arguments in the order of \<^verbatim>\<open>new VideoPreference(attendeeId, priority, size)\<close>.
\<close>

datatype TargetDisplaySize = Low | High

datatype VideoPreference = VideoPreference string int TargetDisplaySize

fun targetSize :: "VideoPreference \<Rightarrow> TargetDisplaySize" where
  "targetSize (VideoPreference k p t) = t"

fun priority :: "VideoPreference \<Rightarrow> int" where
  "priority (VideoPreference k p t) = p"

text \<open>
  Modelled from the spec: the SDK's modality test. The spec says that a content share is
  a pseudo-attendee ``distinguished by a modality marker in its identifier'' and uses the
  id \<^verbatim>\<open>cs#content\<close>; in the SDK an id has the modality \<^verbatim>\<open>m\<close> when splitting it at
  \<^verbatim>\<open>#\<close> gives exactly two components, the second being \<^verbatim>\<open>m\<close>. The proofs of the
  general theorems below do not open this definition, which is evaluated on the ids of
  the scenarios only.
\<close>

fun splitString :: "char \<Rightarrow> string \<Rightarrow> string list" where
  "splitString sep [] = [[]]"
| "splitString sep (c # cs) =
     (if c = sep then [] # splitString sep cs
      else (case splitString sep cs of [] \<Rightarrow> [[c]] | w # ws \<Rightarrow> (c # w) # ws))"

definition modality :: "string \<Rightarrow> string" where
  "modality sourceId = (case splitString CHR ''#'' sourceId of [b, m] \<Rightarrow> m | _ \<Rightarrow> [])"

definition hasModality :: "string \<Rightarrow> string \<Rightarrow> bool" where
  "hasModality sourceId m \<longleftrightarrow> m \<noteq> [] \<and> modality sourceId = m"

definition isContentShare :: "string \<Rightarrow> bool" where
  "isContentShare sourceId = hasModality sourceId ''content''"

subsection \<open>The data model of the file\<close>

record GridState =
  mode :: VideoGridMode
  isZoomed :: bool
  threshold :: int

record AttendeeState =
  attendeeId :: string
  name :: string
  videoEnabled :: bool
  bandwidthConstrained :: bool

text \<open>
  \<^verbatim>\<open>attendeeStates\<close> is a JavaScript object used as a dictionary. Its keys are
  enumerated in insertion order and the code depends on that order
  (\<^verbatim>\<open>Object.keys\<close>, \<^verbatim>\<open>Object.values\<close>), so it is an association list: a new key goes to
  the end, an assignment to a present key keeps its place. Attendee ids are the SDK's
  identifiers; the model takes them not to be canonical array indices, which JavaScript
  enumerates first. The list holds the own properties of the object; what the object
  inherits from \<^verbatim>\<open>Object.prototype\<close> is modelled below (\<open>inObject\<close>). The records stored
  in the dictionary are reached through it only, so they are kept in it as values.
\<close>

type_synonym AttendeeStates = "(string \<times> AttendeeState) list"

record VideoSourceState =
  cameraSources :: "string list"
  activeSpeakersWithCameraSource :: "string list"
  contentShareId :: "string option"
  hasLocalVideo :: bool
  hasLocalContentSharing :: bool

text \<open>The \<^verbatim>\<open>type\<close> of a tile is one of three string literals in the file.\<close>

datatype SourceType = ContentShare | ActiveSpeaker | Common

type_synonym VideoSourceWithType = "string \<times> SourceType"

subsection \<open>JavaScript primitives the file relies on\<close>

text \<open>\<^verbatim>\<open>Object.keys(o)\<close> and the test that \<open>k\<close> is an own property of a dictionary.\<close>

definition keys :: "(string \<times> 'v) list \<Rightarrow> string list" where
  "keys obj = map fst obj"

definition hasKey :: "string \<Rightarrow> (string \<times> 'v) list \<Rightarrow> bool" where
  "hasKey k obj \<longleftrightarrow> k \<in> set (keys obj)"

text \<open>
  The dictionaries of the file (\<^verbatim>\<open>attendeeStates\<close>, the roster) are plain objects, whose
  prototype is \<^verbatim>\<open>Object.prototype\<close>. The operator \<^verbatim>\<open>k in o\<close> and the read \<^verbatim>\<open>o[k]\<close> follow
  the prototype chain: besides the own properties they find the members of
  \<^verbatim>\<open>Object.prototype\<close>, which are the twelve names below in a standard environment. All
  are functions but \<^verbatim>\<open>__proto__\<close>, whose value is \<^verbatim>\<open>Object.prototype\<close> itself.
\<close>

definition objectPrototypeMembers :: "string list" where
  "objectPrototypeMembers =
     [''constructor'', ''__defineGetter__'', ''__defineSetter__'', ''hasOwnProperty'',
      ''__lookupGetter__'', ''__lookupSetter__'', ''isPrototypeOf'',
      ''propertyIsEnumerable'', ''toString'', ''valueOf'', ''__proto__'',
      ''toLocaleString'']"

definition inherited :: "string \<Rightarrow> bool" where
  "inherited k \<longleftrightarrow> k \<in> set objectPrototypeMembers"

definition inObject :: "string \<Rightarrow> (string \<times> 'v) list \<Rightarrow> bool" where
  "inObject k obj \<longleftrightarrow> hasKey k obj \<or> inherited k"

text \<open>
  \<^verbatim>\<open>xs.slice(0, end)\<close>: a negative \<^verbatim>\<open>end\<close> counts from the end of the array, and the
  result is empty when that falls before the start.
\<close>

definition slice0 :: "int \<Rightarrow> 'a list \<Rightarrow> 'a list" where
  "slice0 n xs = take (nat (if n < 0 then int (length xs) + n else n)) xs"

text \<open>A string or \<^verbatim>\<open>null\<close> in a condition: \<^verbatim>\<open>null\<close> and the empty string are falsy.\<close>

definition truthy :: "string option \<Rightarrow> bool" where
  "truthy s \<longleftrightarrow> s \<noteq> None \<and> s \<noteq> Some []"

definition MAX_SAFE_INTEGER :: int where
  "MAX_SAFE_INTEGER = 9007199254740991"

text \<open>A JavaScript array has fewer than \<open>2 ^ 32\<close> elements.\<close>

definition isArray :: "'a list \<Rightarrow> bool" where
  "isArray xs \<longleftrightarrow> int (length xs) < 4294967296"

subsection \<open>Selecting the tiles to render\<close>

definition calculateVideoSourcesToBeRendered ::
  "GridState \<Rightarrow> VideoSourceState \<Rightarrow> AttendeeStates \<Rightarrow> VideoSourceWithType list" where
  "calculateVideoSourcesToBeRendered gridState videoSourceState attendeeStates =
     (let localTile = (if hasLocalVideo videoSourceState then 1 else 0 :: int);
          shareTile = (if truthy (contentShareId videoSourceState) then 1 else 0 :: int);
          speakers = activeSpeakersWithCameraSource videoSourceState;
          \<comment> \<open>First, add content share\<close>
          contentShares =
            filter (\<lambda>k. isContentShare k \<and>
                (case map_of attendeeStates k of Some s \<Rightarrow> videoEnabled s | None \<Rightarrow> False))
              (keys attendeeStates);
          \<comment> \<open>Second, add active speakers\<close>
          maximumNumberOfActiveSpeakers =
            (if mode gridState = FeaturedView then 4 - localTile - shareTile
             else if mode gridState = GalleryView then 1
             else 0);
          activeSpeakers =
            (if length speakers > 0 then slice0 maximumNumberOfActiveSpeakers speakers else []);
          commonSources =
            (if length speakers > 0
             then filter (\<lambda>k. k \<notin> set activeSpeakers) (cameraSources videoSourceState)
             else cameraSources videoSourceState);
          \<comment> \<open>Last, add common video sources\<close>
          gridSize =
            (if mode gridState = FeaturedView then 4
             else if mode gridState = GalleryView
               then (if isZoomed gridState then threshold gridState else MAX_SAFE_INTEGER)
             else 0);
          numberOfAvailableTiles =
            gridSize - localTile - shareTile - int (length activeSpeakers)
      in map (\<lambda>k. (k, ContentShare)) contentShares
         @ map (\<lambda>k. (k, ActiveSpeaker)) activeSpeakers
         @ map (\<lambda>k. (k, Common)) (slice0 numberOfAvailableTiles commonSources))"

subsection \<open>The downlink preferences\<close>

text \<open>
  \<^verbatim>\<open>updateDownlinkPreferences\<close> builds a preference set and hands it to the bandwidth
  policy. The function below is the set it builds, as the sequence of the preferences
  added to the builder; the hand-over is \<open>chooseRemoteVideoSources\<close> further down.
\<close>

definition updateDownlinkPreferences ::
  "GridState \<Rightarrow> VideoSourceState \<Rightarrow> AttendeeStates \<Rightarrow> VideoPreference list" where
  "updateDownlinkPreferences gridState videoSourceState attendeeStates =
     (let videoSourcesToBeRendered =
            calculateVideoSourcesToBeRendered gridState videoSourceState attendeeStates;
          numberOfTiles =
            int (length videoSourcesToBeRendered)
            + (if hasLocalVideo videoSourceState then 1 else 0);
          targetDisplaySize =
            (if numberOfTiles \<le> threshold gridState then High else Low)
      in concat (map (\<lambda>(k, t).
           (if t = ContentShare then [VideoPreference k 1 High] else [])
           @ (if t = ActiveSpeaker
              then [VideoPreference k 1
                     (if mode gridState = FeaturedView then High else targetDisplaySize)]
              else [])
           @ (if t = Common then [VideoPreference k 2 targetDisplaySize] else []))
         videoSourcesToBeRendered))"

subsection \<open>State, store and actions\<close>

text \<open>
  The reducer assigns to fields of the objects nested in the state it is given and
  returns a top-level object that points to the same nested objects, and the reset
  action returns the module-level constant \<^verbatim>\<open>initialState\<close>. What a state holds
  therefore depends on which objects are shared, and the nested objects live in a
  store: a \<open>State\<close> is the three references of a top-level object (top-level objects
  are never assigned to), and a \<open>World\<close> maps each reference to the object it
  denotes. The reducer creates no grid state, dictionary or video source state, so
  the store has no allocation; arrays are replaced, never modified, and are values.
  The world also holds the preference set last handed to the bandwidth policy.
\<close>

type_synonym addr = nat

record World =
  gridStates :: "addr \<Rightarrow> GridState"
  attendeeMaps :: "addr \<Rightarrow> AttendeeStates"
  videoSourceStates :: "addr \<Rightarrow> VideoSourceState"
  chosenRemoteVideoSources :: "VideoPreference list"

record State =
  gridState :: addr
  attendeeStates :: addr
  videoSourceState :: addr

text \<open>
  The constant \<^verbatim>\<open>initialState\<close>: its three nested objects are at reference 0, and
  \<open>moduleLoaded\<close> is the world once the module has been evaluated, where they hold the
  values of the object literal. No preference set has been chosen yet.
\<close>

definition initialState :: State where
  "initialState = \<lparr>gridState = 0, attendeeStates = 0, videoSourceState = 0\<rparr>"

definition initialGridState :: GridState where
  "initialGridState = \<lparr>mode = GalleryView, isZoomed = False, threshold = 8\<rparr>"

definition initialVideoSourceState :: VideoSourceState where
  "initialVideoSourceState =
     \<lparr>cameraSources = [], activeSpeakersWithCameraSource = [], contentShareId = None,
      hasLocalVideo = False, hasLocalContentSharing = False\<rparr>"

definition moduleLoaded :: World where
  "moduleLoaded =
     \<lparr>gridStates = (\<lambda>r. initialGridState),
      attendeeMaps = (\<lambda>r. []),
      videoSourceStates = (\<lambda>r. initialVideoSourceState),
      chosenRemoteVideoSources = []\<rparr>"

datatype RosterAttendeeType =
  RosterAttendeeType (chimeAttendeeId: string) (externalUserId: "string option")
    (rosterName: "string option")

type_synonym RosterType = "(string \<times> RosterAttendeeType) list"

text \<open>A video source of the SDK, of which the reducer reads \<^verbatim>\<open>attendee.attendeeId\<close>.\<close>

datatype VideoSource = VideoSource (attendee: string)

text \<open>
  The ten variants of the type \<^verbatim>\<open>Action\<close>, each with its payload, in the order of the
  enum \<^verbatim>\<open>VideoGridAction\<close>. \<open>Unlisted t\<close> is an object whose \<^verbatim>\<open>type\<close> is a value \<open>t\<close> that
  is no member of the enum: the type \<^verbatim>\<open>Action\<close> has no such value, but nothing prevents
  one at run time, and the \<^verbatim>\<open>switch\<close> has a \<^verbatim>\<open>default\<close> branch for it.
\<close>

datatype Action =
    ResetVideoGridState
  | UpdateAttendeeStates RosterType
  | UpdateVideoSources "VideoSource list"
  | UpdateActiveSpeakers "string list"
  | UpdateLocalSourceState bool "string option" bool "string option"
  | UpdateGridState VideoGridMode
  | PauseVideoTile string
  | UnpauseVideoTile string
  | ZoomIn
  | ZoomOut
  | Unlisted int

text \<open>
  \<^verbatim>\<open>Error\<close> is the error the reducer throws itself; \<^verbatim>\<open>TypeError\<close> is what JavaScript
  throws on an assignment to a property of \<^verbatim>\<open>undefined\<close>.
\<close>

datatype error = Error string | TypeError

subsection \<open>Assignments to the fields of an attendee state\<close>

text \<open>
  The statement \<^verbatim>\<open>attendeeStates[k].field = value\<close>. When \<open>k\<close> is an own key, the field of
  the entry is assigned. When \<open>k\<close> is no own key but an inherited member, the object
  read is that member: the assignment then changes an object that is no part of the
  state and leaves the dictionary as it is, unless it throws. It throws for the field
  \<^verbatim>\<open>name\<close> of a function, which is read-only (the file is a module, hence strict code);
  the fields \<^verbatim>\<open>videoEnabled\<close> and \<^verbatim>\<open>bandwidthConstrained\<close> are added to any member. When \<open>k\<close>
  is neither, the object read is \<^verbatim>\<open>undefined\<close> and the assignment throws. What the
  reducer adds to the members of \<^verbatim>\<open>Object.prototype\<close> is not tracked: they are taken to
  carry no field of an attendee state.
\<close>

definition assignFlag ::
  "string \<Rightarrow> (AttendeeState \<Rightarrow> AttendeeState) \<Rightarrow> AttendeeStates \<Rightarrow> error + AttendeeStates" where
  "assignFlag k f m =
     (if hasKey k m then Inr (AList.map_entry k f m)
      else if inherited k then Inr m
      else Inl TypeError)"

definition assignName :: "string \<Rightarrow> string \<Rightarrow> AttendeeStates \<Rightarrow> error + AttendeeStates" where
  "assignName k n m =
     (if hasKey k m then Inr (AList.map_entry k (\<lambda>s. s\<lparr>name := n\<rparr>) m)
      else if inherited k then (if k = ''__proto__'' then Inr m else Inl TypeError)
      else Inl TypeError)"

subsection \<open>The loops of the reducer\<close>

text \<open>\<^verbatim>\<open>UpdateAttendeeStates\<close>: remove attendee that left the meeting.\<close>

definition removeAttendeesThatLeft :: "RosterType \<Rightarrow> AttendeeStates \<Rightarrow> AttendeeStates" where
  "removeAttendeesThatLeft roster a =
     fold (\<lambda>k m. if \<not> isContentShare k \<and> \<not> inObject k roster then AList.delete k m else m)
       (keys a) a"

text \<open>
  \<^verbatim>\<open>UpdateAttendeeStates\<close>: add attendee that joined the meeting. The name is
  \<^verbatim>\<open>roster[attendeeId]?.name || ''\<close>, read from an own property of the roster. The loop
  ends at the first assignment that throws.
\<close>

definition rosterNameOf :: "RosterType \<Rightarrow> string \<Rightarrow> string" where
  "rosterNameOf roster k =
     (case map_of roster k of
        None \<Rightarrow> []
      | Some r \<Rightarrow> (case rosterName r of None \<Rightarrow> [] | Some n \<Rightarrow> n))"

fun joinAttendees ::
  "RosterType \<Rightarrow> string list \<Rightarrow> AttendeeStates \<Rightarrow> error + AttendeeStates" where
  "joinAttendees roster [] m = Inr m"
| "joinAttendees roster (k # ks) m =
     (if inObject k m
      then (case assignName k (rosterNameOf roster k) m of
              Inl e \<Rightarrow> Inl e
            | Inr m1 \<Rightarrow> joinAttendees roster ks m1)
      else joinAttendees roster ks
             (m @ [(k, \<lparr>attendeeId = k, name = rosterNameOf roster k,
                          videoEnabled = False, bandwidthConstrained = False\<rparr>)]))"

definition addAttendeesThatJoined ::
  "RosterType \<Rightarrow> AttendeeStates \<Rightarrow> error + AttendeeStates" where
  "addAttendeesThatJoined roster a = joinAttendees roster (keys roster) a"

text \<open>
  \<^verbatim>\<open>UpdateAttendeeStates\<close>: ensure the state of \<^verbatim>\<open>videoEnabled\<close>. The assignment is guarded
  by \<^verbatim>\<open>in\<close> and is one of a flag, so it does not throw; for an inherited member that is
  no own key it leaves the dictionary as it is, as \<open>map_entry\<close> does for a key that the
  list does not have.
\<close>

definition enableCameraSources :: "string list \<Rightarrow> AttendeeStates \<Rightarrow> AttendeeStates" where
  "enableCameraSources sources a =
     fold (\<lambda>k m.
         if inObject k m then AList.map_entry k (\<lambda>s. s\<lparr>videoEnabled := True\<rparr>) m else m)
       sources a"

text \<open>\<^verbatim>\<open>UpdateVideoSources\<close>: reset the \<^verbatim>\<open>videoEnabled\<close> of all attendee states.\<close>

definition resetVideoEnabled :: "AttendeeStates \<Rightarrow> AttendeeStates" where
  "resetVideoEnabled a = map (\<lambda>(k, s). (k, s\<lparr>videoEnabled := False\<rparr>)) a"

text \<open>
  \<^verbatim>\<open>UpdateVideoSources\<close>: remove content share from the attendee states, if content
  share is not in video sources.
\<close>

definition removeContentShare :: "string list \<Rightarrow> AttendeeStates \<Rightarrow> AttendeeStates" where
  "removeContentShare videoSourceIds a =
     fold (\<lambda>k m. if isContentShare k \<and> k \<notin> set videoSourceIds then AList.delete k m else m)
       (keys a) a"

text \<open>
  \<^verbatim>\<open>UpdateVideoSources\<close>: update the \<^verbatim>\<open>videoEnabled\<close> according to video sources. A new
  entry is created without the field \<^verbatim>\<open>videoEnabled\<close>, which is assigned \<^verbatim>\<open>true\<close> in the
  same iteration; the model creates it with \<open>False\<close>, the truth value of the missing field.
  \<open>addVideoSource\<close> is the conditional of the loop body, \<open>enableVideoSource\<close> the whole body:
  after the conditional \<open>k\<close> is in the object, so the assignment of the flag does not throw
  (for an inherited member that is no own key, no entry is added and the dictionary stays
  as it is).
\<close>

definition newVideoAttendee :: "string \<Rightarrow> AttendeeState" where
  "newVideoAttendee k =
     (if isContentShare k
      then \<lparr>attendeeId = k, name = ''content share'', videoEnabled = False,
            bandwidthConstrained = False\<rparr>
      else \<lparr>attendeeId = k, name = [], videoEnabled = False, bandwidthConstrained = False\<rparr>)"

definition addVideoSource :: "string \<Rightarrow> AttendeeStates \<Rightarrow> AttendeeStates" where
  "addVideoSource k m = (if \<not> inObject k m then m @ [(k, newVideoAttendee k)] else m)"

definition enableVideoSource :: "string \<Rightarrow> AttendeeStates \<Rightarrow> AttendeeStates" where
  "enableVideoSource k m =
     AList.map_entry k (\<lambda>s. s\<lparr>videoEnabled := True\<rparr>) (addVideoSource k m)"

definition enableVideoSources :: "string list \<Rightarrow> AttendeeStates \<Rightarrow> AttendeeStates" where
  "enableVideoSources videoSourceIds a = fold enableVideoSource videoSourceIds a"

text \<open>
  \<^verbatim>\<open>UpdateVideoSources\<close>: populate the camera sources based on the order of the attendee
  states. The loop reads the field \<^verbatim>\<open>attendeeId\<close> of each value.
\<close>

definition populateCameraSources :: "AttendeeStates \<Rightarrow> string list" where
  "populateCameraSources a =
     map attendeeId
       (filter (\<lambda>s. videoEnabled s \<and> \<not> isContentShare (attendeeId s)) (map snd a))"

text \<open>
  \<^verbatim>\<open>UpdateActiveSpeakers\<close>: the test is \<^verbatim>\<open>attendeeStates[attendeeId]?.videoEnabled\<close>. For an
  id that is no own key the read gives \<^verbatim>\<open>undefined\<close> or a member of \<^verbatim>\<open>Object.prototype\<close>,
  which has no such field: the test fails either way.
\<close>

definition withCameraSource :: "AttendeeStates \<Rightarrow> string list \<Rightarrow> string list \<Rightarrow> string list" where
  "withCameraSource a sources activeSpeakers =
     filter (\<lambda>k. (case map_of a k of None \<Rightarrow> False | Some s \<Rightarrow> videoEnabled s)
                 \<and> k \<in> set sources)
       activeSpeakers"

subsection \<open>The reducer\<close>

text \<open>
  \<^verbatim>\<open>priorityBasedPolicy.chooseRemoteVideoSources\<close> replaces the policy's preference set.
  \<open>recompute\<close> is the call \<^verbatim>\<open>updateDownlinkPreferences(gridState, videoSourceState,
  attendeeStates)\<close> on the objects of a state, as they are in the store at that moment.
\<close>

definition chooseRemoteVideoSources :: "VideoPreference list \<Rightarrow> World \<Rightarrow> World" where
  "chooseRemoteVideoSources preferences w = w\<lparr>chosenRemoteVideoSources := preferences\<rparr>"

definition recompute :: "State \<Rightarrow> World \<Rightarrow> World" where
  "recompute s w =
     chooseRemoteVideoSources
       (updateDownlinkPreferences (gridStates w (gridState s))
          (videoSourceStates w (videoSourceState s)) (attendeeMaps w (attendeeStates s)))
       w"

text \<open>Assignments into the objects of a state.\<close>

definition setGridState :: "State \<Rightarrow> GridState \<Rightarrow> World \<Rightarrow> World" where
  "setGridState s g w = w\<lparr>gridStates := (gridStates w)(gridState s := g)\<rparr>"

definition setAttendeeStates :: "State \<Rightarrow> AttendeeStates \<Rightarrow> World \<Rightarrow> World" where
  "setAttendeeStates s a w = w\<lparr>attendeeMaps := (attendeeMaps w)(attendeeStates s := a)\<rparr>"

definition setVideoSourceState :: "State \<Rightarrow> VideoSourceState \<Rightarrow> World \<Rightarrow> World" where
  "setVideoSourceState s v w =
     w\<lparr>videoSourceStates := (videoSourceStates w)(videoSourceState s := v)\<rparr>"

text \<open>
  The reducer, on the world \<open>w\<close> and the state \<open>s\<close>: the error thrown, or the world
  after the call with the state returned. Every returned object is a copy of \<open>s\<close> with
  some nested references written again, hence \<open>s\<close> itself, except for the reset. A call
  that throws returns no state; what it assigned before the throw is not part of the
  result. In the update of the local source state the assignment of the flag is guarded
  by \<^verbatim>\<open>in\<close>, as in \<open>enableCameraSources\<close>.
\<close>

fun reducer :: "World \<Rightarrow> State \<Rightarrow> Action \<Rightarrow> error + (World \<times> State)" where
  "reducer w s ResetVideoGridState = Inr (w, initialState)"
| "reducer w s (UpdateAttendeeStates roster) =
     (let a = attendeeMaps w (attendeeStates s);
          v = videoSourceStates w (videoSourceState s);
          a1 = removeAttendeesThatLeft roster a
      in case addAttendeesThatJoined roster a1 of
           Inl e \<Rightarrow> Inl e
         | Inr a2 \<Rightarrow>
             Inr (setAttendeeStates s (enableCameraSources (cameraSources v) a2) w, s))"
| "reducer w s (UpdateVideoSources videoSources) =
     (let a = attendeeMaps w (attendeeStates s);
          v = videoSourceStates w (videoSourceState s);
          videoSourceIds = map attendee videoSources;
          a1 = resetVideoEnabled a;
          a2 = removeContentShare videoSourceIds a1;
          a3 = enableVideoSources videoSourceIds a2;
          v1 = v\<lparr>cameraSources := populateCameraSources a3\<rparr>
      in Inr (recompute s (setVideoSourceState s v1 (setAttendeeStates s a3 w)), s))"
| "reducer w s (UpdateActiveSpeakers activeSpeakers) =
     (let a = attendeeMaps w (attendeeStates s);
          v = videoSourceStates w (videoSourceState s);
          v1 = v\<lparr>activeSpeakersWithCameraSource :=
                  withCameraSource a (cameraSources v) activeSpeakers\<rparr>
      in Inr (recompute s (setVideoSourceState s v1 w), s))"
| "reducer w s (UpdateLocalSourceState isVideoEnabled localAttendeeId isLocalUserSharing
       sharingAttendeeId) =
     (let a = attendeeMaps w (attendeeStates s);
          v = videoSourceStates w (videoSourceState s);
          v1 = v\<lparr>hasLocalVideo := isVideoEnabled,
                 hasLocalContentSharing := isLocalUserSharing,
                 contentShareId := sharingAttendeeId\<rparr>;
          a1 = (case localAttendeeId of
                  None \<Rightarrow> a
                | Some k \<Rightarrow>
                    if k \<noteq> [] \<and> inObject k a
                    then AList.map_entry k (\<lambda>t. t\<lparr>videoEnabled := isVideoEnabled\<rparr>) a
                    else a)
      in Inr (recompute s (setAttendeeStates s a1 (setVideoSourceState s v1 w)), s))"
| "reducer w s (UpdateGridState videoGridMode) =
     (let g = gridStates w (gridState s);
          g1 = g\<lparr>mode := videoGridMode\<rparr>
      in Inr (recompute s (setGridState s g1 w), s))"
| "reducer w s (PauseVideoTile k) =
     (let a = attendeeMaps w (attendeeStates s)
      in case assignFlag k (\<lambda>t. t\<lparr>bandwidthConstrained := True\<rparr>) a of
           Inl e \<Rightarrow> Inl e
         | Inr a1 \<Rightarrow> Inr (setAttendeeStates s a1 w, s))"
| "reducer w s (UnpauseVideoTile k) =
     (let a = attendeeMaps w (attendeeStates s)
      in case assignFlag k (\<lambda>t. t\<lparr>bandwidthConstrained := False\<rparr>) a of
           Inl e \<Rightarrow> Inl e
         | Inr a1 \<Rightarrow> Inr (setAttendeeStates s a1 w, s))"
| "reducer w s ZoomIn =
     (let g = gridStates w (gridState s);
          v = videoSourceStates w (videoSourceState s);
          numberOfTiles =
            int (length (cameraSources v)) + (if hasLocalVideo v then 1 else 0)
      in if numberOfTiles > threshold g
         then Inr (recompute s (setGridState s (g\<lparr>isZoomed := True\<rparr>) w), s)
         else Inr (w, s))"
| "reducer w s ZoomOut =
     (let g = gridStates w (gridState s)
      in if isZoomed g
         then Inr (recompute s (setGridState s (g\<lparr>isZoomed := False\<rparr>) w), s)
         else Inr (w, s))"
| "reducer w s (Unlisted t) = Inl (Error ''Incorrect type in VideoGridStateProvider'')"

text \<open>
  Dispatching a sequence of actions: each call of the reducer receives the state the
  previous call returned, and a thrown error ends the sequence.
\<close>

fun dispatchAll :: "World \<Rightarrow> State \<Rightarrow> Action list \<Rightarrow> error + (World \<times> State)" where
  "dispatchAll w s [] = Inr (w, s)"
| "dispatchAll w s (act # acts) =
     (case reducer w s act of
        Inl e \<Rightarrow> Inl e
      | Inr (w1, s1) \<Rightarrow> dispatchAll w1 s1 acts)"

subsection \<open>The states of the scenarios\<close>

text \<open>
  Scenario A of the specification: gallery view, not zoomed, threshold 8, no local video,
  no content share, ten camera sources \<open>a\<close> to \<open>j\<close>, all with video, and \<open>c\<close> speaking.
\<close>

definition scenarioCameraSources :: "string list" where
  "scenarioCameraSources = [''a'', ''b'', ''c'', ''d'', ''e'', ''f'', ''g'', ''h'', ''i'', ''j'']"

definition withVideo :: "string \<Rightarrow> string \<times> AttendeeState" where
  "withVideo k =
     (k, \<lparr>attendeeId = k, name = [], videoEnabled = True, bandwidthConstrained = False\<rparr>)"

definition scenarioAttendeeStates :: AttendeeStates where
  "scenarioAttendeeStates = map withVideo scenarioCameraSources"

definition scenarioGridState :: GridState where
  "scenarioGridState = \<lparr>mode = GalleryView, isZoomed = False, threshold = 8\<rparr>"

definition scenarioVideoSourceState :: VideoSourceState where
  "scenarioVideoSourceState =
     \<lparr>cameraSources = scenarioCameraSources, activeSpeakersWithCameraSource = [''c''],
      contentShareId = None, hasLocalVideo = False, hasLocalContentSharing = False\<rparr>"

text \<open>
  A featured view with four speaking camera sources and two content shares, \<open>s#content\<close>
  and \<open>t#content\<close>, both with video among the attendee states; the content share id is
  that of the first.
\<close>

definition featuredGridState :: GridState where
  "featuredGridState = \<lparr>mode = FeaturedView, isZoomed = False, threshold = 8\<rparr>"

definition featuredVideoSourceState :: VideoSourceState where
  "featuredVideoSourceState =
     \<lparr>cameraSources = [''a'', ''b'', ''c'', ''d''],
      activeSpeakersWithCameraSource = [''a'', ''b'', ''c'', ''d''],
      contentShareId = Some ''s#content'', hasLocalVideo = False,
      hasLocalContentSharing = False\<rparr>"

definition featuredAttendeeStates :: AttendeeStates where
  "featuredAttendeeStates =
     map withVideo [''s#content'', ''t#content'', ''a'', ''b'', ''c'', ''d'']"

text \<open>
  A zoomed gallery with the ten camera sources of scenario A, nobody speaking, and the
  same two content shares.
\<close>

definition zoomedGridState :: GridState where
  "zoomedGridState = \<lparr>mode = GalleryView, isZoomed = True, threshold = 8\<rparr>"

definition zoomedVideoSourceState :: VideoSourceState where
  "zoomedVideoSourceState =
     \<lparr>cameraSources = scenarioCameraSources, activeSpeakersWithCameraSource = [],
      contentShareId = Some ''s#content'', hasLocalVideo = False,
      hasLocalContentSharing = False\<rparr>"

definition zoomedAttendeeStates :: AttendeeStates where
  "zoomedAttendeeStates =
     map withVideo (''s#content'' # ''t#content'' # scenarioCameraSources)"

text \<open>
  The world of scenario A: the freshly loaded module where the objects of the constant
  hold the attendee states and the video source state of the scenario.
\<close>

definition scenarioWorld :: World where
  "scenarioWorld =
     moduleLoaded
       \<lparr>attendeeMaps := (attendeeMaps moduleLoaded)(0 := scenarioAttendeeStates),
        videoSourceStates := (videoSourceStates moduleLoaded)(0 := scenarioVideoSourceState)\<rparr>"




section \<open>Properties\<close>

subsection \<open>Slices and content shares\<close>

lemma slice0_all: "int (length xs) \<le> n \<Longrightarrow> slice0 n xs = xs"
  by (simp add: slice0_def)

lemma slice0_nonneg: "0 \<le> n \<Longrightarrow> slice0 n xs = take (nat n) xs"
  by (simp add: slice0_def)

lemma slice0_length_le: "0 \<le> n \<Longrightarrow> int (length (slice0 n xs)) \<le> n"
  by (simp add: slice0_def)

lemma no_content_share_filter:
  "\<forall>k\<in>set ks. \<not> isContentShare k \<Longrightarrow> filter (\<lambda>k. isContentShare k \<and> P k) ks = []"
  by (induction ks) auto

lemma single_char_no_content_share: "\<not> isContentShare [c]"
  by (simp add: isContentShare_def hasModality_def modality_def)

lemma scenario_no_content_share:
  "\<forall>k\<in>set (keys scenarioAttendeeStates). \<not> isContentShare k"
  by (simp add: scenarioAttendeeStates_def scenarioCameraSources_def withVideo_def keys_def
      single_char_no_content_share)

subsection \<open>Scenario A\<close>

lemma scenario_tiles:
  assumes "\<forall>k\<in>set (keys a). \<not> isContentShare k"
  shows "calculateVideoSourcesToBeRendered scenarioGridState scenarioVideoSourceState a =
     [(''c'', ActiveSpeaker), (''a'', Common), (''b'', Common), (''d'', Common),
      (''e'', Common), (''f'', Common), (''g'', Common), (''h'', Common),
      (''i'', Common), (''j'', Common)]"
proof -
  have cs: "filter (\<lambda>k. isContentShare k \<and>
                (case map_of a k of Some s \<Rightarrow> videoEnabled s | None \<Rightarrow> False)) (keys a) = []"
    using assms by (rule no_content_share_filter)
  show ?thesis
    unfolding calculateVideoSourcesToBeRendered_def cs Let_def
    by (simp add: scenarioGridState_def scenarioVideoSourceState_def
        scenarioCameraSources_def truthy_def MAX_SAFE_INTEGER_def slice0_all)
qed

text \<open>
  C1, as the code has it. In scenario A, whatever attendee states there are as long as
  none is a content share, the selection is \<open>c\<close> as the active speaker followed by all
  nine other camera sources as common tiles, in their order: the gallery that is not
  zoomed has no capacity, so \<open>i\<close> and \<open>j\<close> are selected too. That makes ten tiles for a
  threshold of 8, and every preference asks for the target size Low.
\<close>

theorem scenario_A_selects_all_sources_at_low:
  assumes "\<forall>k\<in>set (keys a). \<not> isContentShare k"
  shows "calculateVideoSourcesToBeRendered scenarioGridState scenarioVideoSourceState a =
       [(''c'', ActiveSpeaker), (''a'', Common), (''b'', Common), (''d'', Common),
        (''e'', Common), (''f'', Common), (''g'', Common), (''h'', Common),
        (''i'', Common), (''j'', Common)]
     \<and> updateDownlinkPreferences scenarioGridState scenarioVideoSourceState a =
       [VideoPreference ''c'' 1 Low, VideoPreference ''a'' 2 Low, VideoPreference ''b'' 2 Low,
        VideoPreference ''d'' 2 Low, VideoPreference ''e'' 2 Low, VideoPreference ''f'' 2 Low,
        VideoPreference ''g'' 2 Low, VideoPreference ''h'' 2 Low, VideoPreference ''i'' 2 Low,
        VideoPreference ''j'' 2 Low]"
proof -
  note t = scenario_tiles [OF assms]
  have "updateDownlinkPreferences scenarioGridState scenarioVideoSourceState a =
       [VideoPreference ''c'' 1 Low, VideoPreference ''a'' 2 Low, VideoPreference ''b'' 2 Low,
        VideoPreference ''d'' 2 Low, VideoPreference ''e'' 2 Low, VideoPreference ''f'' 2 Low,
        VideoPreference ''g'' 2 Low, VideoPreference ''h'' 2 Low, VideoPreference ''i'' 2 Low,
        VideoPreference ''j'' 2 Low]"
    unfolding updateDownlinkPreferences_def t
    by (simp add: scenarioGridState_def scenarioVideoSourceState_def)
  with t show ?thesis by simp
qed

text \<open>The theorem at the attendee states of the scenario, the ten attendees with video.\<close>

theorem scenario_A_selects_all_sources_at_low_witness:
  "calculateVideoSourcesToBeRendered scenarioGridState scenarioVideoSourceState
       scenarioAttendeeStates =
       [(''c'', ActiveSpeaker), (''a'', Common), (''b'', Common), (''d'', Common),
        (''e'', Common), (''f'', Common), (''g'', Common), (''h'', Common),
        (''i'', Common), (''j'', Common)]
     \<and> updateDownlinkPreferences scenarioGridState scenarioVideoSourceState
       scenarioAttendeeStates =
       [VideoPreference ''c'' 1 Low, VideoPreference ''a'' 2 Low, VideoPreference ''b'' 2 Low,
        VideoPreference ''d'' 2 Low, VideoPreference ''e'' 2 Low, VideoPreference ''f'' 2 Low,
        VideoPreference ''g'' 2 Low, VideoPreference ''h'' 2 Low, VideoPreference ''i'' 2 Low,
        VideoPreference ''j'' 2 Low]"
  using scenario_A_selects_all_sources_at_low [OF scenario_no_content_share] .

text \<open>
  C1 as the specification states it fails: the selection is not \<open>c\<close> followed by the seven
  common tiles \<open>a, b, d, e, f, g, h\<close>, and the target sizes are not all High.
\<close>

theorem scenario_A_counterexample:
  "\<not> (calculateVideoSourcesToBeRendered scenarioGridState scenarioVideoSourceState
          scenarioAttendeeStates =
        [(''c'', ActiveSpeaker), (''a'', Common), (''b'', Common), (''d'', Common),
         (''e'', Common), (''f'', Common), (''g'', Common), (''h'', Common)]
      \<and> (\<forall>p\<in>set (updateDownlinkPreferences scenarioGridState scenarioVideoSourceState
                     scenarioAttendeeStates). targetSize p = High))"
  by (simp add: scenario_tiles [OF scenario_no_content_share])

subsection \<open>The featured view\<close>

lemma content_share_id: "isContentShare ''s#content''" "isContentShare ''t#content''"
  by (simp_all add: isContentShare_def hasModality_def modality_def)

lemma filter_not_tagged:
  "t \<noteq> u \<Longrightarrow> filter (\<lambda>x. snd x = t) (map (\<lambda>k. (k, u)) xs) = []"
  by (induction xs) auto

lemma filter_tagged:
  "filter (\<lambda>x. snd x = t) (map (\<lambda>k. (k, t)) xs) = map (\<lambda>k. (k, t)) xs"
  by (induction xs) auto

lemma filter_other_tagged:
  "t \<noteq> u \<Longrightarrow> filter (\<lambda>x. snd x \<noteq> t) (map (\<lambda>k. (k, u)) xs) = map (\<lambda>k. (k, u)) xs"
  by (induction xs) auto

lemma filter_same_tagged:
  "filter (\<lambda>x. snd x \<noteq> t) (map (\<lambda>k. (k, t)) xs) = []"
  by (induction xs) auto

lemma featured_tiles:
  "calculateVideoSourcesToBeRendered featuredGridState featuredVideoSourceState
     featuredAttendeeStates =
   [(''s#content'', ContentShare), (''t#content'', ContentShare), (''a'', ActiveSpeaker),
    (''b'', ActiveSpeaker), (''c'', ActiveSpeaker)]"
  by (simp add: calculateVideoSourcesToBeRendered_def featuredGridState_def
      featuredVideoSourceState_def featuredAttendeeStates_def withVideo_def keys_def
      truthy_def slice0_nonneg content_share_id single_char_no_content_share)

text \<open>
  C3 as the specification states it fails: in the featured view with four active
  speakers and two content shares with video, five tiles are selected, the two content
  shares and three active speakers.
\<close>

theorem featured_view_counterexample:
  "\<not> length (calculateVideoSourcesToBeRendered featuredGridState featuredVideoSourceState
         featuredAttendeeStates) \<le> 4"
  by (simp add: featured_tiles)

text \<open>
  C3, as the code has it. In the featured view the active-speaker tiles and the common
  tiles together never exceed 4 less one for local video and one for a content share id
  that is set. The content-share tiles come on top, one for each enabled content share
  among the attendee states, so all the tiles stay within 4 when there is at most one
  content-share tile, and none unless the content share id is set.
\<close>

theorem featured_view_speakers_and_common_bound:
  assumes "mode g = FeaturedView"
  shows "int (length (filter (\<lambda>x. snd x \<noteq> ContentShare)
             (calculateVideoSourcesToBeRendered g v a)))
           \<le> 4 - (if hasLocalVideo v then 1 else 0)
               - (if truthy (contentShareId v) then 1 else 0)
       \<and> (int (length (filter (\<lambda>x. snd x = ContentShare)
               (calculateVideoSourcesToBeRendered g v a)))
             \<le> (if truthy (contentShareId v) then 1 else 0)
           \<longrightarrow> length (calculateVideoSourcesToBeRendered g v a) \<le> 4)"
proof -
  define l :: int where "l = (if hasLocalVideo v then 1 else 0)"
  define c :: int where "c = (if truthy (contentShareId v) then 1 else 0)"
  define cs where "cs = filter (\<lambda>k. isContentShare k \<and>
      (case map_of a k of Some s \<Rightarrow> videoEnabled s | None \<Rightarrow> False)) (keys a)"
  define sp where "sp = (if length (activeSpeakersWithCameraSource v) > 0
      then slice0 (4 - l - c) (activeSpeakersWithCameraSource v) else [])"
  define cm where "cm = (if length (activeSpeakersWithCameraSource v) > 0
      then filter (\<lambda>k. k \<notin> set sp) (cameraSources v) else cameraSources v)"
  define rest where "rest = slice0 (4 - l - c - int (length sp)) cm"
  have tiles: "calculateVideoSourcesToBeRendered g v a =
      map (\<lambda>k. (k, ContentShare)) cs @ map (\<lambda>k. (k, ActiveSpeaker)) sp
      @ map (\<lambda>k. (k, Common)) rest"
    using assms
    by (simp add: calculateVideoSourcesToBeRendered_def Let_def l_def c_def cs_def sp_def
        cm_def rest_def)
  have room: "0 \<le> 4 - l - c" by (simp add: l_def c_def)
  have sp: "int (length sp) \<le> 4 - l - c"
    using slice0_length_le [OF room, of "activeSpeakersWithCameraSource v"] room
    by (auto simp: sp_def)
  then have rest: "int (length rest) \<le> 4 - l - c - int (length sp)"
    unfolding rest_def by (intro slice0_length_le) simp
  have others: "filter (\<lambda>x. snd x \<noteq> ContentShare) (calculateVideoSourcesToBeRendered g v a)
      = map (\<lambda>k. (k, ActiveSpeaker)) sp @ map (\<lambda>k. (k, Common)) rest"
    by (simp add: tiles filter_same_tagged filter_other_tagged)
  have shares: "filter (\<lambda>x. snd x = ContentShare) (calculateVideoSourcesToBeRendered g v a)
      = map (\<lambda>k. (k, ContentShare)) cs"
    by (simp add: tiles filter_tagged filter_not_tagged)
  have total: "int (length (calculateVideoSourcesToBeRendered g v a))
      = int (length cs) + int (length sp) + int (length rest)"
    by (simp add: tiles)
  show ?thesis
    unfolding others shares l_def [symmetric] c_def [symmetric]
    using sp rest total by (auto simp: l_def c_def split: if_splits)
qed

text \<open>The theorem at the featured state above: at most three speaker and common tiles.\<close>

theorem featured_view_speakers_and_common_bound_witness:
  "int (length (filter (\<lambda>x. snd x \<noteq> ContentShare)
       (calculateVideoSourcesToBeRendered featuredGridState featuredVideoSourceState
          featuredAttendeeStates))) \<le> 3"
  using featured_view_speakers_and_common_bound
    [of featuredGridState featuredVideoSourceState featuredAttendeeStates]
  by (simp add: featuredGridState_def featuredVideoSourceState_def truthy_def)

subsection \<open>The gallery view\<close>

lemma zoomed_tiles:
  "calculateVideoSourcesToBeRendered zoomedGridState zoomedVideoSourceState
     zoomedAttendeeStates =
   [(''s#content'', ContentShare), (''t#content'', ContentShare), (''a'', Common),
    (''b'', Common), (''c'', Common), (''d'', Common), (''e'', Common), (''f'', Common),
    (''g'', Common)]"
  by (simp add: calculateVideoSourcesToBeRendered_def zoomedGridState_def
      zoomedVideoSourceState_def zoomedAttendeeStates_def scenarioCameraSources_def
      withVideo_def keys_def truthy_def slice0_nonneg content_share_id
      single_char_no_content_share)

text \<open>
  C4 as the specification states it fails in its second half: in the zoomed gallery with
  threshold 8, two content shares with video and ten camera sources, nine tiles are
  selected, the two content shares and seven common tiles.
\<close>

theorem gallery_view_counterexample:
  "\<not> (isZoomed zoomedGridState \<and> mode zoomedGridState = GalleryView
      \<longrightarrow> int (length (calculateVideoSourcesToBeRendered zoomedGridState
             zoomedVideoSourceState zoomedAttendeeStates))
          \<le> threshold zoomedGridState)"
  by (simp add: zoomed_tiles) (simp add: zoomedGridState_def)

text \<open>
  C4, as the code has it. In the gallery view that is not zoomed, every camera source
  that is not selected as an active speaker is selected as a common tile (the camera
  sources being a JavaScript array). In the zoomed gallery, when the threshold less one
  for local video and one for a content share id that is set leaves room for the
  active-speaker tile, the active-speaker and common tiles together stay within that
  number; the content-share tiles come on top, one for each enabled content share among
  the attendee states, so all the tiles stay within the threshold when there is at most
  one content-share tile, and none unless the content share id is set.
\<close>

theorem gallery_view_capacity:
  assumes "mode g = GalleryView"
  shows "(\<not> isZoomed g \<and> isArray (cameraSources v) \<longrightarrow>
           (\<forall>k\<in>set (cameraSources v).
              (k, ActiveSpeaker) \<notin> set (calculateVideoSourcesToBeRendered g v a)
              \<longrightarrow> (k, Common) \<in> set (calculateVideoSourcesToBeRendered g v a)))
       \<and> (isZoomed g
            \<and> (if activeSpeakersWithCameraSource v = [] then 0 else 1)
               \<le> threshold g - (if hasLocalVideo v then 1 else 0)
                   - (if truthy (contentShareId v) then 1 else 0) \<longrightarrow>
           int (length (filter (\<lambda>x. snd x \<noteq> ContentShare)
                  (calculateVideoSourcesToBeRendered g v a)))
             \<le> threshold g - (if hasLocalVideo v then 1 else 0)
                 - (if truthy (contentShareId v) then 1 else 0)
           \<and> (int (length (filter (\<lambda>x. snd x = ContentShare)
                    (calculateVideoSourcesToBeRendered g v a)))
                 \<le> (if truthy (contentShareId v) then 1 else 0)
               \<longrightarrow> int (length (calculateVideoSourcesToBeRendered g v a)) \<le> threshold g))"
proof -
  define l :: int where "l = (if hasLocalVideo v then 1 else 0)"
  define c :: int where "c = (if truthy (contentShareId v) then 1 else 0)"
  define cs where "cs = filter (\<lambda>k. isContentShare k \<and>
      (case map_of a k of Some s \<Rightarrow> videoEnabled s | None \<Rightarrow> False)) (keys a)"
  define sp where "sp = (if length (activeSpeakersWithCameraSource v) > 0
      then slice0 1 (activeSpeakersWithCameraSource v) else [])"
  define cm where "cm = (if length (activeSpeakersWithCameraSource v) > 0
      then filter (\<lambda>k. k \<notin> set sp) (cameraSources v) else cameraSources v)"
  define n where "n = (if isZoomed g then threshold g else MAX_SAFE_INTEGER)
      - l - c - int (length sp)"
  have tiles: "calculateVideoSourcesToBeRendered g v a =
      map (\<lambda>k. (k, ContentShare)) cs @ map (\<lambda>k. (k, ActiveSpeaker)) sp
      @ map (\<lambda>k. (k, Common)) (slice0 n cm)"
    using assms
    by (simp add: calculateVideoSourcesToBeRendered_def Let_def l_def c_def cs_def sp_def
        cm_def n_def)
  have sp_len: "int (length sp) = (if activeSpeakersWithCameraSource v = [] then 0 else 1)"
    by (cases "activeSpeakersWithCameraSource v") (simp_all add: sp_def slice0_nonneg)
  have cm_sub: "k \<in> set (cameraSources v) \<Longrightarrow> k \<notin> set sp \<Longrightarrow> k \<in> set cm" for k
    by (simp add: cm_def)
  have cm_len: "length cm \<le> length (cameraSources v)"
    by (simp add: cm_def)
  have first: "(k, Common) \<in> set (calculateVideoSourcesToBeRendered g v a)"
    if "\<not> isZoomed g" and "isArray (cameraSources v)" and "k \<in> set (cameraSources v)"
      and "(k, ActiveSpeaker) \<notin> set (calculateVideoSourcesToBeRendered g v a)" for k
  proof -
    have "int (length cm) \<le> n"
      using that(1,2) cm_len sp_len
      by (simp add: n_def isArray_def MAX_SAFE_INTEGER_def l_def c_def)
    then have "slice0 n cm = cm" by (rule slice0_all)
    moreover have "k \<notin> set sp" using that(4) by (auto simp: tiles)
    ultimately show ?thesis using cm_sub [OF that(3)] by (auto simp: tiles)
  qed
  have others: "filter (\<lambda>x. snd x \<noteq> ContentShare) (calculateVideoSourcesToBeRendered g v a)
      = map (\<lambda>k. (k, ActiveSpeaker)) sp @ map (\<lambda>k. (k, Common)) (slice0 n cm)"
    by (simp add: tiles filter_same_tagged filter_other_tagged)
  have shares: "filter (\<lambda>x. snd x = ContentShare) (calculateVideoSourcesToBeRendered g v a)
      = map (\<lambda>k. (k, ContentShare)) cs"
    by (simp add: tiles filter_tagged filter_not_tagged)
  have total: "int (length (calculateVideoSourcesToBeRendered g v a))
      = int (length cs) + int (length sp) + int (length (slice0 n cm))"
    by (simp add: tiles)
  have second: "int (length sp) + int (length (slice0 n cm)) \<le> threshold g - l - c"
    if "isZoomed g" and "int (length sp) \<le> threshold g - l - c"
  proof -
    have "0 \<le> n" using that by (simp add: n_def)
    from slice0_length_le [OF this, of cm] show ?thesis using that(1) by (simp add: n_def)
  qed
  show ?thesis
    unfolding others shares total l_def [symmetric] c_def [symmetric] sp_len [symmetric]
    using first second by (auto simp: c_def l_def)
qed

text \<open>
  The theorem at scenario A, where \<open>i\<close> is not dropped, and at a zoomed scenario A, which
  has no content share: eight tiles.
\<close>

theorem gallery_view_capacity_witness:
  "(''i'', Common) \<in> set (calculateVideoSourcesToBeRendered scenarioGridState
       scenarioVideoSourceState scenarioAttendeeStates)
   \<and> int (length (calculateVideoSourcesToBeRendered (scenarioGridState\<lparr>isZoomed := True\<rparr>)
       scenarioVideoSourceState scenarioAttendeeStates)) \<le> 8"
proof -
  have no_share: "filter (\<lambda>x. snd x = ContentShare)
      (calculateVideoSourcesToBeRendered (scenarioGridState\<lparr>isZoomed := True\<rparr>)
         scenarioVideoSourceState scenarioAttendeeStates) = []"
    using no_content_share_filter [OF scenario_no_content_share]
    by (simp add: calculateVideoSourcesToBeRendered_def Let_def filter_not_tagged)
  have not_speaker: "(''i'', ActiveSpeaker) \<notin> set (calculateVideoSourcesToBeRendered
      scenarioGridState scenarioVideoSourceState scenarioAttendeeStates)"
    by (simp add: scenario_tiles [OF scenario_no_content_share])
  show ?thesis
    using gallery_view_capacity
      [of scenarioGridState scenarioVideoSourceState scenarioAttendeeStates]
      gallery_view_capacity
      [of "scenarioGridState\<lparr>isZoomed := True\<rparr>" scenarioVideoSourceState
          scenarioAttendeeStates]
      not_speaker
    by (simp add: no_share)
      (simp add: scenarioGridState_def scenarioVideoSourceState_def
        scenarioCameraSources_def truthy_def isArray_def)
qed

subsection \<open>The preferences of the selected tiles\<close>

lemma concat_singletons:
  "(\<And>x. x \<in> set xs \<Longrightarrow> f x = [h x]) \<Longrightarrow> concat (map f xs) = map h xs"
  by (induction xs) auto

text \<open>
  C5. The target size computed is High when the number of selected tiles, plus one for
  local video, is within the threshold, and Low otherwise. The preferences are those of
  the selected tiles, in their order: a content share at priority 1 and High, an active
  speaker at priority 1 and High in the featured view or the computed target in the
  gallery view, a common tile at priority 2 and the computed target.
\<close>

theorem downlink_preferences_of_tiles:
  "updateDownlinkPreferences g v a =
     (let tiles = calculateVideoSourcesToBeRendered g v a;
          computed =
            (if int (length tiles) + (if hasLocalVideo v then 1 else 0) \<le> threshold g
             then High else Low)
      in map (\<lambda>(k, t).
           case t of
             ContentShare \<Rightarrow> VideoPreference k 1 High
           | ActiveSpeaker \<Rightarrow>
               VideoPreference k 1
                 (case mode g of FeaturedView \<Rightarrow> High | GalleryView \<Rightarrow> computed)
           | Common \<Rightarrow> VideoPreference k 2 computed)
         tiles)"
  unfolding updateDownlinkPreferences_def Let_def
proof (rule concat_singletons, goal_cases)
  case (1 x)
  obtain k t where "x = (k, t)" by (cases x)
  then show ?case by (cases t; cases "mode g") simp_all
qed

text \<open>
  The theorem at the featured state above with a threshold of 4: five tiles count, the
  computed target is Low, and the five preferences are at High all the same, since none
  is for a common tile.
\<close>

theorem downlink_preferences_of_tiles_witness:
  "updateDownlinkPreferences (featuredGridState\<lparr>threshold := 4\<rparr>) featuredVideoSourceState
     featuredAttendeeStates =
   [VideoPreference ''s#content'' 1 High, VideoPreference ''t#content'' 1 High,
    VideoPreference ''a'' 1 High, VideoPreference ''b'' 1 High, VideoPreference ''c'' 1 High]"
proof -
  have "calculateVideoSourcesToBeRendered (featuredGridState\<lparr>threshold := 4\<rparr>)
      featuredVideoSourceState featuredAttendeeStates =
    [(''s#content'', ContentShare), (''t#content'', ContentShare), (''a'', ActiveSpeaker),
     (''b'', ActiveSpeaker), (''c'', ActiveSpeaker)]"
    by (simp add: calculateVideoSourcesToBeRendered_def featuredGridState_def
      featuredVideoSourceState_def featuredAttendeeStates_def withVideo_def keys_def
      truthy_def slice0_nonneg content_share_id single_char_no_content_share)
  then show ?thesis
    using downlink_preferences_of_tiles
      [of "featuredGridState\<lparr>threshold := 4\<rparr>" featuredVideoSourceState
          featuredAttendeeStates]
    by (simp add: featuredGridState_def)
qed

subsection \<open>Dictionaries\<close>






lemma single_char_not_inherited: "\<not> inherited [c]"
  by (simp add: inherited_def objectPrototypeMembers_def)




subsection \<open>The reset\<close>

text \<open>
  What the reset does: it returns the constant and leaves the store alone. The state it
  returns holds the defaults as long as nothing has been assigned to the objects of the
  constant, as in the world \<open>moduleLoaded\<close>.
\<close>

lemma reset_returns_the_constant: "reducer w s ResetVideoGridState = Inr (w, initialState)"
  by simp

lemma reset_in_fresh_world:
  "gridStates moduleLoaded (gridState initialState) = initialGridState
   \<and> attendeeMaps moduleLoaded (attendeeStates initialState) = []
   \<and> videoSourceStates moduleLoaded (videoSourceState initialState) = initialVideoSourceState"
  by (simp add: moduleLoaded_def)

text \<open>
  C2 fails on the code. From any state of the freshly loaded module, a reset, a change of
  the grid mode to the featured view and another reset are dispatched. The first reset
  makes the constant \<^verbatim>\<open>initialState\<close> the current state; the mode is then assigned to the
  grid state of the constant itself; the second reset returns the constant again, whose
  mode is the featured view and not the gallery view of the defaults.
\<close>

theorem reset_returns_modified_initial_state:
  "\<exists>w. dispatchAll moduleLoaded s
          [ResetVideoGridState, UpdateGridState FeaturedView, ResetVideoGridState]
        = Inr (w, initialState)
      \<and> mode (gridStates w (gridState initialState)) = FeaturedView"
  by (simp add: Let_def recompute_def chooseRemoteVideoSources_def setGridState_def)

subsection \<open>Active speakers\<close>



subsection \<open>Errors\<close>

lemma joinAttendees_error: "joinAttendees roster ks m = Inl e \<Longrightarrow> e = TypeError"
  by (induction roster ks m rule: joinAttendees.induct)
    (auto simp: assignName_def split: if_splits sum.splits)

lemma addAttendeesThatJoined_error: "addAttendeesThatJoined roster a = Inl e \<Longrightarrow> e = TypeError"
  unfolding addAttendeesThatJoined_def by (rule joinAttendees_error)

text \<open>
  C9. The reducer throws its error \<^verbatim>\<open>Incorrect type in VideoGridStateProvider\<close> exactly on
  the actions whose type is outside the enum: on those it returns no state, and none of
  the ten listed actions reaches the default branch.
\<close>

theorem unlisted_action_throws:
  "(reducer w s act = Inl (Error ''Incorrect type in VideoGridStateProvider''))
     = (\<exists>t. act = Unlisted t)"
proof (cases act)
  case (UpdateAttendeeStates roster)
  then show ?thesis
    by (auto simp: Let_def split: sum.splits dest: addAttendeesThatJoined_error)
qed (simp_all add: Let_def assignFlag_def split: sum.splits)

text \<open>The theorem at an action of type 10, and at the zoom out, which is listed.\<close>

theorem unlisted_action_throws_witness:
  "reducer moduleLoaded initialState (Unlisted 10)
     = Inl (Error ''Incorrect type in VideoGridStateProvider'')
   \<and> reducer moduleLoaded initialState ZoomOut
     \<noteq> Inl (Error ''Incorrect type in VideoGridStateProvider'')"
  using unlisted_action_throws [of moduleLoaded initialState "Unlisted 10"]
    unlisted_action_throws [of moduleLoaded initialState ZoomOut]
  by simp

text \<open>
  C10. Pausing or unpausing the tile of an attendee throws a type error exactly when the
  attendee id is not in the attendee states, neither as an own key nor as a member
  inherited from \<^verbatim>\<open>Object.prototype\<close>: so it does for some input, as for any id on the
  empty attendee states that is no such member. When the id is in the attendee states,
  the reducer returns the state and the store differs in the attendee states only.
\<close>

theorem pause_throws_on_absent_attendee:
  "(reducer w s (PauseVideoTile k) = Inl TypeError)
       = (\<not> inObject k (attendeeMaps w (attendeeStates s)))
   \<and> (reducer w s (UnpauseVideoTile k) = Inl TypeError)
       = (\<not> inObject k (attendeeMaps w (attendeeStates s)))
   \<and> (\<exists>a'. reducer w s (PauseVideoTile k) = Inr (setAttendeeStates s a' w, s))
       = inObject k (attendeeMaps w (attendeeStates s))
   \<and> (\<exists>a'. reducer w s (UnpauseVideoTile k) = Inr (setAttendeeStates s a' w, s))
       = inObject k (attendeeMaps w (attendeeStates s))"
  by (auto simp: Let_def assignFlag_def inObject_def)

text \<open>
  The theorem in the freshly loaded module, where there is no attendee: pausing the tile
  of \<open>a\<close> throws; and in the world of scenario A, where \<open>a\<close> is an attendee: it does not.
  Nor does pausing the tile of \<open>toString\<close> in the freshly loaded module, where the flag is
  assigned to the inherited function.
\<close>

theorem pause_throws_on_absent_attendee_witness:
  "reducer moduleLoaded initialState (PauseVideoTile ''a'') = Inl TypeError
   \<and> reducer moduleLoaded initialState (UnpauseVideoTile ''a'') = Inl TypeError
   \<and> reducer scenarioWorld initialState (PauseVideoTile ''a'') \<noteq> Inl TypeError
   \<and> reducer moduleLoaded initialState (PauseVideoTile ''toString'') \<noteq> Inl TypeError"
proof -
  have "inherited ''toString''"
    by (simp add: inherited_def objectPrototypeMembers_def)
  then show ?thesis
    using pause_throws_on_absent_attendee [of moduleLoaded initialState "''a''"]
      pause_throws_on_absent_attendee [of scenarioWorld initialState "''a''"]
      pause_throws_on_absent_attendee [of moduleLoaded initialState "''toString''"]
    by (simp add: moduleLoaded_def scenarioWorld_def initialState_def hasKey_def keys_def
        inObject_def single_char_not_inherited
        scenarioAttendeeStates_def scenarioCameraSources_def withVideo_def)
qed

subsection \<open>Roster updates\<close>








subsection \<open>Video source updates\<close>




























end

